theory Spec2Isabelle
  imports Main "HOL-Library.Stream"
begin

section \<open>Text operations of the wire protocol\<close>

text \<open>
  A Python \<open>str\<close> is modelled by its UTF-8 encoding, a \<open>string\<close> of bytes: the text of a
  literal of the source is the literal itself, concatenation and equality of texts are
  those of the byte strings, and \<open>text.encode()\<close> is the text as it stands.
\<close>

function str_nat :: "nat \<Rightarrow> string" where
  "str_nat n =
     (if n < 10 then [''0123456789'' ! n]
      else str_nat (n div 10) @ [''0123456789'' ! (n mod 10)])"
  by pat_completeness auto
termination
  by (relation "measure id") auto

text \<open>
  \<open>utf8_scan i bs\<close> cuts the bytes \<open>bs\<close>, which stand at position \<open>i\<close> of the input, into
  the encodings of their characters, as the decoder of \<open>bytes.decode()\<close> does. It stops at
  the first byte sequence that is not the UTF-8 encoding of a character (a byte that cannot
  start one, a missing or wrong continuation byte, an overlong form, a surrogate, a code
  point above 10FFFF) with the positions and the reason that the \<open>UnicodeDecodeError\<close> of
  Python carries.
\<close>

definition is_cont :: "char \<Rightarrow> bool" where
  "is_cont c \<longleftrightarrow> 0x80 \<le> (of_char c :: nat) \<and> (of_char c :: nat) \<le> 0xBF"

definition second_ok :: "char \<Rightarrow> char \<Rightarrow> bool" where
  "second_ok lead c \<longleftrightarrow>
     (if (of_char lead :: nat) = 0xE0 then 0xA0 \<le> (of_char c :: nat) \<and> (of_char c :: nat) \<le> 0xBF
      else if (of_char lead :: nat) = 0xED then 0x80 \<le> (of_char c :: nat) \<and> (of_char c :: nat) \<le> 0x9F
      else if (of_char lead :: nat) = 0xF0 then 0x90 \<le> (of_char c :: nat) \<and> (of_char c :: nat) \<le> 0xBF
      else if (of_char lead :: nat) = 0xF4 then 0x80 \<le> (of_char c :: nat) \<and> (of_char c :: nat) \<le> 0x8F
      else is_cont c)"

type_synonym decode_error = "nat \<times> nat \<times> string"

definition then_chars :: "string \<Rightarrow> decode_error + string list \<Rightarrow> decode_error + string list" where
  "then_chars ch r = (case r of Inl e \<Rightarrow> Inl e | Inr cs \<Rightarrow> Inr (ch # cs))"

fun utf8_scan :: "nat \<Rightarrow> string \<Rightarrow> decode_error + string list" where
  "utf8_scan i [] = Inr []"
| "utf8_scan i (b # bs) =
     (if (of_char b :: nat) < 0x80 then then_chars [b] (utf8_scan (i + 1) bs)
      else if (of_char b :: nat) < 0xC2 then Inl (i, i + 1, ''invalid start byte'')
      else if (of_char b :: nat) < 0xE0 then
        (case bs of
           [] \<Rightarrow> Inl (i, i + 1, ''unexpected end of data'')
         | c1 # r \<Rightarrow>
             if is_cont c1 then then_chars [b, c1] (utf8_scan (i + 2) r)
             else Inl (i, i + 1, ''invalid continuation byte''))
      else if (of_char b :: nat) < 0xF0 then
        (case bs of
           [] \<Rightarrow> Inl (i, i + 1, ''unexpected end of data'')
         | c1 # bs1 \<Rightarrow>
             if \<not> second_ok b c1 then Inl (i, i + 1, ''invalid continuation byte'')
             else
               (case bs1 of
                  [] \<Rightarrow> Inl (i, i + 2, ''unexpected end of data'')
                | c2 # r \<Rightarrow>
                    if is_cont c2 then then_chars [b, c1, c2] (utf8_scan (i + 3) r)
                    else Inl (i, i + 2, ''invalid continuation byte'')))
      else if (of_char b :: nat) < 0xF5 then
        (case bs of
           [] \<Rightarrow> Inl (i, i + 1, ''unexpected end of data'')
         | c1 # bs1 \<Rightarrow>
             if \<not> second_ok b c1 then Inl (i, i + 1, ''invalid continuation byte'')
             else
               (case bs1 of
                  [] \<Rightarrow> Inl (i, i + 2, ''unexpected end of data'')
                | c2 # bs2 \<Rightarrow>
                    if \<not> is_cont c2 then Inl (i, i + 2, ''invalid continuation byte'')
                    else
                      (case bs2 of
                         [] \<Rightarrow> Inl (i, i + 3, ''unexpected end of data'')
                       | c3 # r \<Rightarrow>
                           if is_cont c3 then then_chars [b, c1, c2, c3] (utf8_scan (i + 4) r)
                           else Inl (i, i + 3, ''invalid continuation byte''))))
      else Inl (i, i + 1, ''invalid start byte''))"

text \<open>The \<open>str\<close> of the \<open>UnicodeDecodeError\<close> for the bytes from \<open>i\<close> up to \<open>j\<close>.\<close>

definition hex2 :: "nat \<Rightarrow> string" where
  "hex2 n = [''0123456789abcdef'' ! (n div 16), ''0123456789abcdef'' ! (n mod 16)]"

definition str_decode_error :: "string \<Rightarrow> decode_error \<Rightarrow> string" where
  "str_decode_error bs e =
     (case e of (i, j, why) \<Rightarrow>
        if j = i + 1 then
          [CHR 0x27] @ ''utf-8'' @ [CHR 0x27] @ '' codec can'' @ [CHR 0x27] @ ''t decode byte 0x''
            @ hex2 (of_char (bs ! i)) @ '' in position '' @ str_nat i @ '': '' @ why
        else
          [CHR 0x27] @ ''utf-8'' @ [CHR 0x27] @ '' codec can'' @ [CHR 0x27]
            @ ''t decode bytes in position '' @ str_nat i @ ''-'' @ str_nat (j - 1) @ '': '' @ why)"

text \<open>\<open>data.decode()\<close>: the text of the bytes, or the \<open>str\<close> of the error it raises.\<close>

definition decode :: "string \<Rightarrow> string + string" where
  "decode bs =
     (case utf8_scan 0 bs of
        Inl e \<Rightarrow> Inl (str_decode_error bs e)
      | Inr cs \<Rightarrow> Inr bs)"

text \<open>The characters of a text, each given by its encoding.\<close>

definition chars :: "string \<Rightarrow> string list" where
  "chars s = (case utf8_scan 0 s of Inl e \<Rightarrow> [] | Inr cs \<Rightarrow> cs)"

text \<open>
  Python's character tables (which characters are whitespace, which are digits, and the
  upper case of each character, which may be several characters) are not part of the
  sources: the methods of \<open>str\<close> are defined here over any such tables, a character
  being given by its encoding. \<open>str.strip\<close> drops the whitespace at both ends,
  \<open>str.split\<close> cuts at runs of whitespace, \<open>str.upper\<close> replaces each character by its
  upper case, and \<open>str.isdigit\<close> holds of a text of one or more characters that are all
  digits.
\<close>

record tables =
  is_space :: "string \<Rightarrow> bool"
  is_digit :: "string \<Rightarrow> bool"
  to_upper :: "string \<Rightarrow> string"

definition strip :: "tables \<Rightarrow> string \<Rightarrow> string" where
  "strip U s = concat (rev (dropWhile (is_space U) (rev (dropWhile (is_space U) (chars s)))))"

fun split_from :: "tables \<Rightarrow> string \<Rightarrow> string list \<Rightarrow> string list" where
  "split_from U tok [] = (if tok = [] then [] else [tok])"
| "split_from U tok (c # cs) =
     (if is_space U c then (if tok = [] then split_from U [] cs else tok # split_from U [] cs)
      else split_from U (tok @ c) cs)"

definition split :: "tables \<Rightarrow> string \<Rightarrow> string list" where
  "split U s = split_from U [] (chars s)"

definition upper :: "tables \<Rightarrow> string \<Rightarrow> string" where
  "upper U s = concat (map (to_upper U) (chars s))"

definition isdigit :: "tables \<Rightarrow> string \<Rightarrow> bool" where
  "isdigit U s \<longleftrightarrow> chars s \<noteq> [] \<and> list_all (is_digit U) (chars s)"

definition startswith :: "string \<Rightarrow> string \<Rightarrow> bool" where
  "startswith s p \<longleftrightarrow> take (length p) s = p"


text \<open>
  Python's tables on the characters below 128: the whitespace of \<open>str.strip\<close> and
  \<open>str.split\<close>, the ten digits, and the upper case of the letters. A text of such
  characters is treated as Python treats it; a character from 128 on is taken to be
  neither whitespace nor a digit and to be its own upper case.
\<close>

definition ascii_upper :: "char \<Rightarrow> char" where
  "ascii_upper c =
     (case map_of (zip ''abcdefghijklmnopqrstuvwxyz'' ''ABCDEFGHIJKLMNOPQRSTUVWXYZ'') c of
        None \<Rightarrow> c
      | Some u \<Rightarrow> u)"

definition ascii_tables :: tables where
  "ascii_tables =
     \<lparr>is_space = (\<lambda>c. c \<in> set (map (\<lambda>b. [b])
                     [CHR 0x09, CHR 0x0A, CHR 0x0B, CHR 0x0C, CHR 0x0D,
                      CHR 0x1C, CHR 0x1D, CHR 0x1E, CHR 0x1F, CHR 0x20])),
      is_digit = (\<lambda>c. c \<in> set (map (\<lambda>b. [b]) ''0123456789'')),
      to_upper = map ascii_upper\<rparr>"

section \<open>Sockets\<close>

text \<open>
  An address is the pair (host, port) that \<open>getpeername\<close> returns. A socket carries
  what the peer and the operating system will do (the endpoint identity or the error of
  \<open>getpeername\<close>, the outcome of each successive \<open>sendall\<close> and \<open>recv\<close>, the error of
  \<open>settimeout\<close> and of \<open>close\<close> if they raise) and what the program has done to it
  (the texts delivered, the read deadline, whether it is closed).

  \<open>settimeout\<close> stores the deadline in the socket object before it switches the blocking
  mode of the descriptor, and \<open>close\<close> marks the socket closed and releases the
  descriptor before it reports an error: both take effect also when they raise.

  A call of \<open>recv\<close> returns bytes, or runs into the deadline of the socket, or fails with
  an error of the operating system, as \<open>settimeout\<close> may. From Python 3.10 on \<open>socket.timeout\<close> is the class
  \<open>TimeoutError\<close>, which is also the class of an \<open>OSError\<close> whose number is \<open>ETIMEDOUT\<close>:
  such an error is a \<open>TimeoutError\<close> here and every other one an \<open>OSError\<close>, each with
  its text.
\<close>

type_synonym addr = "string \<times> nat"

datatype os_error = OSError string | TimeoutError string

datatype recv_event = Data string | RecvTimeout | RecvError os_error

record socket =
  peer :: "string + addr"
  send_results :: "string option stream"
  recv_results :: "recv_event stream"
  settimeout_error :: "os_error option"
  close_error :: "string option"
  outbox :: "string list"
  deadline :: "nat option"
  is_closed :: bool

type_synonym 'c world = "'c \<Rightarrow> socket"

datatype exc =
    PlayerDisconnectedError addr string
  | PlayerQuitError addr string
  | InvalidMessageError addr string
  | TimeoutWaitingPlayerError addr string
  | OtherException string

text \<open>The \<open>repr\<close> of an address whose host needs no escape, as a numeric host does not.\<close>

definition repr_addr :: "addr \<Rightarrow> string" where
  "repr_addr a = ''('' @ [CHR 0x27] @ fst a @ [CHR 0x27] @ '', '' @ str_nat (snd a) @ '')''"

fun str_exc :: "exc \<Rightarrow> string" where
  "str_exc (PlayerDisconnectedError a m) = m @ '': '' @ repr_addr a"
| "str_exc (PlayerQuitError a m) = m @ '': '' @ repr_addr a"
| "str_exc (InvalidMessageError a m) = m @ '': '' @ repr_addr a"
| "str_exc (TimeoutWaitingPlayerError a m) = m @ '': '' @ repr_addr a"
| "str_exc (OtherException m) = m"

definition MOVE_TIMEOUT_SECONDS :: nat where
  "MOVE_TIMEOUT_SECONDS = 30"

definition sendall :: "'c \<Rightarrow> string \<Rightarrow> 'c world \<Rightarrow> string option \<times> 'c world" where
  "sendall c text w =
     (let s = w c in
      case shd (send_results s) of
        None \<Rightarrow> (None, w(c := s\<lparr>send_results := stl (send_results s),
                                 outbox := outbox s @ [text]\<rparr>))
      | Some err \<Rightarrow> (Some err, w(c := s\<lparr>send_results := stl (send_results s)\<rparr>)))"

text \<open>One call \<open>sock.recv(BUFFER)\<close>: the next event of the socket, at most \<open>BUFFER\<close> bytes.\<close>

definition recv :: "'c \<Rightarrow> 'c world \<Rightarrow> recv_event \<times> 'c world" where
  "recv c w =
     (let s = w c in (shd (recv_results s), w(c := s\<lparr>recv_results := stl (recv_results s)\<rparr>)))"

definition settimeout :: "'c \<Rightarrow> nat option \<Rightarrow> 'c world \<Rightarrow> os_error option \<times> 'c world" where
  "settimeout c t w = (settimeout_error (w c), w(c := (w c)\<lparr>deadline := t\<rparr>))"

definition close :: "'c \<Rightarrow> 'c world \<Rightarrow> string option \<times> 'c world" where
  "close c w = (close_error (w c), w(c := (w c)\<lparr>is_closed := True\<rparr>))"

definition peer_or_unknown :: "socket \<Rightarrow> addr" where
  "peer_or_unknown s = (case peer s of Inl err \<Rightarrow> (''unknown'', 0) | Inr a \<Rightarrow> a)"

definition safe_send :: "'c \<Rightarrow> string \<Rightarrow> 'c world \<Rightarrow> (exc + unit) \<times> 'c world" where
  "safe_send c text w =
     (case sendall c text w of
        (None, w') \<Rightarrow> (Inr (), w')
      | (Some err, w') \<Rightarrow>
          (Inl (PlayerDisconnectedError (peer_or_unknown (w' c)) (''send failed: '' @ err)), w'))"

text \<open>
  The body of the \<open>try\<close> of \<open>recv_with_timeout\<close> with its \<open>except\<close> clauses, in their
  order: \<open>except socket.timeout\<close> on line 63 takes the deadline of the socket and every
  other \<open>TimeoutError\<close> of \<open>settimeout\<close> and \<open>recv\<close>; \<open>except Exception\<close> on line 71 takes
  their other errors and the error of \<open>decode\<close>. The \<open>finally\<close> clause is applied to the
  result in \<open>recv_with_timeout\<close>.
\<close>

definition timed_out :: "socket \<Rightarrow> nat \<Rightarrow> exc" where
  "timed_out s timeout_seconds =
     TimeoutWaitingPlayerError (peer_or_unknown s)
       (''Timed out after '' @ str_nat timeout_seconds @ '' seconds'')"

definition recv_attempt ::
  "tables \<Rightarrow> 'c \<Rightarrow> nat \<Rightarrow> 'c world \<Rightarrow> (exc + string) \<times> 'c world" where
  "recv_attempt U c timeout_seconds w =
     (case settimeout c (Some timeout_seconds) w of
        (Some (TimeoutError err), w1) \<Rightarrow> (Inl (timed_out (w1 c) timeout_seconds), w1)
      | (Some (OSError err), w1) \<Rightarrow>
          (Inl (PlayerDisconnectedError (peer_or_unknown (w1 c)) (''recv failed: '' @ err)), w1)
      | (None, w1) \<Rightarrow>
          (case recv c w1 of
             (Data bs, w2) \<Rightarrow>
               (if bs = [] then
                  (Inl (PlayerDisconnectedError (peer_or_unknown (w2 c))
                          ''client closed connection''), w2)
                else
                  (case decode bs of
                     Inr text \<Rightarrow> (Inr (strip U text), w2)
                   | Inl err \<Rightarrow>
                       (Inl (PlayerDisconnectedError (peer_or_unknown (w2 c))
                               (''recv failed: '' @ err)), w2)))
           | (RecvTimeout, w2) \<Rightarrow> (Inl (timed_out (w2 c) timeout_seconds), w2)
           | (RecvError (TimeoutError err), w2) \<Rightarrow> (Inl (timed_out (w2 c) timeout_seconds), w2)
           | (RecvError (OSError err), w2) \<Rightarrow>
               (Inl (PlayerDisconnectedError (peer_or_unknown (w2 c))
                       (''recv failed: '' @ err)), w2)))"

definition recv_with_timeout ::
  "tables \<Rightarrow> 'c \<Rightarrow> nat \<Rightarrow> 'c world \<Rightarrow> (exc + string) \<times> 'c world" where
  "recv_with_timeout U c timeout_seconds w =
     (case recv_attempt U c timeout_seconds w of
        (r, w') \<Rightarrow> (r, snd (settimeout c None w')))"

section \<open>The game session\<close>

text \<open>
  The two sockets of a session are named by \<open>P1\<close> and \<open>P2\<close>. The rule engine
  (\<open>logic.logic.TicTacToe\<close> and its exceptions) is not part of the sources: the session
  is modelled over any engine with the attributes the session reads and the operation it
  calls. \<open>make_move\<close> returns the exception it raises, if any, and the state it leaves.
\<close>

datatype player = P1 | P2

datatype engine_error =
    InvalidMoveError string
  | OutOfRangeError string
  | CellOccupiedError string
  | NotYourTurnError string
  | PlayerNotRecognizedError string
  | GameOverError string
  | EngineFailure string

record 'g engine =
  new_game :: "'g"
  symbols :: "'g \<Rightarrow> player \<Rightarrow> string"
  turn :: "'g \<Rightarrow> player"
  print_board :: "'g \<Rightarrow> string"
  make_move :: "'g \<Rightarrow> player \<Rightarrow> string \<Rightarrow> engine_error option \<times> 'g"
  winner :: "'g \<Rightarrow> string option"

datatype flow = Continue | Break

datatype reply = MoveArg string | BadFormat

definition broadcast :: "string \<Rightarrow> player world \<Rightarrow> (exc + unit) \<times> player world" where
  "broadcast text w =
     (case safe_send P1 text w of
        (Inl e, w1) \<Rightarrow> (Inl e, w1)
      | (Inr u, w1) \<Rightarrow> safe_send P2 text w1)"

definition other_of :: "player \<Rightarrow> player" where
  "other_of current = (if current = P1 then P2 else P1)"

text \<open>Lines 108 to 118: board, prompts and the reply of the player to move.\<close>

definition prompt_and_receive ::
  "tables \<Rightarrow> 'g engine \<Rightarrow> 'g \<Rightarrow> player world \<Rightarrow> (exc + string) \<times> player world" where
  "prompt_and_receive U E g w =
     (case broadcast (print_board E g @ [CHR 0x0A]) w of
        (Inl e, w1) \<Rightarrow> (Inl e, w1)
      | (Inr u, w1) \<Rightarrow>
          (case safe_send (turn E g) (''Your move (0-8) or QUIT:'' @ [CHR 0x0A]) w1 of
             (Inl e, w2) \<Rightarrow> (Inl e, w2)
           | (Inr u, w2) \<Rightarrow>
               (case safe_send (other_of (turn E g))
                       (''Waiting for opponent...'' @ [CHR 0x0A]) w2 of
                  (Inl e, w3) \<Rightarrow> (Inl e, w3)
                | (Inr u, w3) \<Rightarrow> recv_with_timeout U (turn E g) MOVE_TIMEOUT_SECONDS w3)))"

text \<open>
  Lines 121 to 134, up to the choice of \<open>move_arg\<close>. \<open>current.getpeername()\<close> is
  called without a guard here: its error is an exception of no class of the server.
\<close>

definition parse_reply :: "tables \<Rightarrow> socket \<Rightarrow> string \<Rightarrow> exc + reply" where
  "parse_reply U current move_text =
     (if upper U move_text = ''QUIT'' then
        (case peer current of
           Inl err \<Rightarrow> Inl (OtherException err)
         | Inr a \<Rightarrow> Inl (PlayerQuitError a ''Player quit''))
      else if startswith (upper U move_text) ''MOVE '' then
        (let parts = split U move_text in
         if length parts \<noteq> 2 \<or> \<not> isdigit U (parts ! 1) then
           (case peer current of
              Inl err \<Rightarrow> Inl (OtherException err)
            | Inr a \<Rightarrow> Inl (InvalidMessageError a (''Malformed MOVE: '' @ move_text)))
         else Inr (MoveArg (parts ! 1)))
      else if isdigit U move_text then Inr (MoveArg move_text)
      else Inr BadFormat)"

definition illegal_move ::
  "player \<Rightarrow> string \<Rightarrow> string \<Rightarrow> 'g \<Rightarrow> player world \<Rightarrow> (exc + flow) \<times> 'g \<times> player world" where
  "illegal_move current name msg g w =
     (case safe_send current (''ERROR: '' @ name @ '': '' @ msg @ [CHR 0x0A]) w of
        (Inl e, w1) \<Rightarrow> (Inl e, g, w1)
      | (Inr u, w1) \<Rightarrow> (Inr Continue, g, w1))"

definition game_over_notice :: "player \<Rightarrow> string \<Rightarrow> string \<Rightarrow> player world \<Rightarrow> player world" where
  "game_over_notice s board_final msg w =
     (case safe_send s (board_final @ [CHR 0x0A]) w of
        (Inl e, w1) \<Rightarrow> w1
      | (Inr u, w1) \<Rightarrow> snd (safe_send s (''GAME OVER: '' @ msg @ [CHR 0x0A]) w1))"

definition tell_result :: "'g engine \<Rightarrow> 'g \<Rightarrow> string \<Rightarrow> player \<Rightarrow> player world \<Rightarrow> player world" where
  "tell_result E g win s w =
     (if symbols E g s = win then snd (safe_send s (''You win!'' @ [CHR 0x0A]) w)
      else snd (safe_send s (''You lose!'' @ [CHR 0x0A]) w))"

text \<open>
  Lines 157 to 177: the board after a move that raised nothing, and the result. The two
  sends of the draw notice on lines 165 and 166 are not guarded, those of the win and loss
  notices on lines 168 to 176 are.
\<close>

definition announce ::
  "'g engine \<Rightarrow> 'g \<Rightarrow> player world \<Rightarrow> (exc + flow) \<times> 'g \<times> player world" where
  "announce E g w =
     (case broadcast (print_board E g @ [CHR 0x0A]) w of
        (Inl e, w1) \<Rightarrow> (Inl e, g, w1)
      | (Inr u, w1) \<Rightarrow>
          (case winner E g of
             None \<Rightarrow> (Inr Continue, g, w1)
           | Some win \<Rightarrow>
               (if win = [] then (Inr Continue, g, w1)
                else if win = ''Draw'' then
                  (case broadcast (''Game over! It'' @ [CHR 0x27] @ ''s a draw.'' @ [CHR 0x0A]) w1 of
                     (Inl e, w2) \<Rightarrow> (Inl e, g, w2)
                   | (Inr u, w2) \<Rightarrow> (Inr Break, g, w2))
                else (Inr Break, g, tell_result E g win P2 (tell_result E g win P1 w1)))))"

text \<open>Lines 137 to 177: the move is applied and the outcome of the engine is reported.\<close>

definition apply_move ::
  "'g engine \<Rightarrow> 'g \<Rightarrow> player \<Rightarrow> string \<Rightarrow> player world \<Rightarrow> (exc + flow) \<times> 'g \<times> player world" where
  "apply_move E g current move_arg w =
     (case make_move E g current move_arg of
        (Some (InvalidMoveError m), g1) \<Rightarrow> illegal_move current ''InvalidMoveError'' m g1 w
      | (Some (OutOfRangeError m), g1) \<Rightarrow> illegal_move current ''OutOfRangeError'' m g1 w
      | (Some (CellOccupiedError m), g1) \<Rightarrow> illegal_move current ''CellOccupiedError'' m g1 w
      | (Some (NotYourTurnError m), g1) \<Rightarrow> illegal_move current ''NotYourTurnError'' m g1 w
      | (Some (PlayerNotRecognizedError m), g1) \<Rightarrow>
          (case safe_send current (''ERROR: Player not recognized: '' @ m @ [CHR 0x0A]) w of
             (Inl e, w1) \<Rightarrow> (Inl e, g1, w1)
           | (Inr u, w1) \<Rightarrow> (Inr Break, g1, w1))
      | (Some (GameOverError m), g1) \<Rightarrow>
          (Inr Break, g1,
           game_over_notice P2 (print_board E g1) m (game_over_notice P1 (print_board E g1) m w))
      | (Some (EngineFailure m), g1) \<Rightarrow> (Inl (OtherException m), g1, w)
      | (None, g1) \<Rightarrow> announce E g1 w)"

text \<open>The body of the \<open>try\<close> of one turn of the loop, lines 108 to 177.\<close>

definition iter_body ::
  "tables \<Rightarrow> 'g engine \<Rightarrow> 'g \<Rightarrow> player world \<Rightarrow> (exc + flow) \<times> 'g \<times> player world" where
  "iter_body U E g w =
     (case prompt_and_receive U E g w of
        (Inl e, w1) \<Rightarrow> (Inl e, g, w1)
      | (Inr move_text, w1) \<Rightarrow>
          (case parse_reply U (w1 (turn E g)) move_text of
             Inl e \<Rightarrow> (Inl e, g, w1)
           | Inr BadFormat \<Rightarrow>
               (case safe_send (turn E g) (''Invalid move format: '' @ move_text @ [CHR 0x0A]) w1 of
                  (Inl e, w2) \<Rightarrow> (Inl e, g, w2)
                | (Inr u, w2) \<Rightarrow> (Inr Continue, g, w2))
           | Inr (MoveArg move_arg) \<Rightarrow> apply_move E g (turn E g) move_arg w1))"

text \<open>
  The \<open>try\<close> inside the handlers of the three terminal failures, lines 182 to 186,
  191 to 195 and 200 to 204: an error of \<open>p1.getpeername()\<close> or of the send is dropped.
\<close>

definition notify_remaining :: "addr \<Rightarrow> string \<Rightarrow> player world \<Rightarrow> player world" where
  "notify_remaining a text w =
     (case peer (w P1) of
        Inl err \<Rightarrow> w
      | Inr a1 \<Rightarrow> snd (safe_send (if a = a1 then P2 else P1) text w))"

text \<open>The \<open>except\<close> clauses of the loop, lines 179 to 226.\<close>

fun on_exception :: "exc \<Rightarrow> player \<Rightarrow> player world \<Rightarrow> flow \<times> player world" where
  "on_exception (TimeoutWaitingPlayerError a m) current w =
     (Break, notify_remaining a (''OPPONENT_TIMEOUT - you win'' @ [CHR 0x0A]) w)"
| "on_exception (PlayerQuitError a m) current w =
     (Break, notify_remaining a (''OPPONENT_QUIT - you win'' @ [CHR 0x0A]) w)"
| "on_exception (PlayerDisconnectedError a m) current w =
     (Break, notify_remaining a (''OPPONENT_DISCONNECTED - you win'' @ [CHR 0x0A]) w)"
| "on_exception (InvalidMessageError a m) current w =
     (Continue,
      snd (safe_send current
             (''INVALID_MESSAGE: '' @ str_exc (InvalidMessageError a m) @ [CHR 0x0A]) w))"
| "on_exception (OtherException m) current w =
     (Break,
      snd (safe_send P2 (''Server error: '' @ m @ [CHR 0x0A])
             (snd (safe_send P1 (''Server error: '' @ m @ [CHR 0x0A]) w))))"

definition game_iter ::
  "tables \<Rightarrow> 'g engine \<Rightarrow> 'g \<Rightarrow> player world \<Rightarrow> flow \<times> 'g \<times> player world" where
  "game_iter U E g w =
     (case iter_body U E g w of
        (Inl e, g1, w1) \<Rightarrow> (case on_exception e (turn E g) w1 of (f, w2) \<Rightarrow> (f, g1, w2))
      | (Inr f, g1, w1) \<Rightarrow> (f, g1, w1))"

partial_function (option) game_loop ::
  "tables \<Rightarrow> 'g engine \<Rightarrow> 'g \<Rightarrow> player world \<Rightarrow> ('g \<times> player world) option" where
  "game_loop U E g w =
     (if fst (game_iter U E g w) = Break then Some (snd (game_iter U E g w))
      else game_loop U E (fst (snd (game_iter U E g w))) (snd (snd (game_iter U E g w))))"

definition close_both :: "player world \<Rightarrow> player world" where
  "close_both w = snd (close P2 (snd (close P1 w)))"

definition greet :: "'g engine \<Rightarrow> 'g \<Rightarrow> player world \<Rightarrow> (exc + unit) \<times> player world" where
  "greet E g w =
     (case safe_send P1 (''Game start! You are '' @ symbols E g P1 @ [CHR 0x0A]) w of
        (Inl e, w1) \<Rightarrow> (Inl e, w1)
      | (Inr u, w1) \<Rightarrow> safe_send P2 (''Game start! You are '' @ symbols E g P2 @ [CHR 0x0A]) w1)"

definition handle_game ::
  "tables \<Rightarrow> 'g engine \<Rightarrow> player world \<Rightarrow> ('g \<times> player world) option" where
  "handle_game U E w =
     (case greet E (new_game E) w of
        (Inl e, w1) \<Rightarrow> Some (new_game E, close_both w1)
      | (Inr u, w1) \<Rightarrow>
          (case game_loop U E (new_game E) w1 of
             None \<Rightarrow> None
           | Some (g2, w2) \<Rightarrow> Some (g2, close_both w2)))"

text \<open>
  The state of a session at the start of a turn: \<open>turns n\<close> runs \<open>n\<close> turns of the
  loop that all continue, and \<open>session_state U E w n\<close> is the state \<open>handle_game U E w\<close> is
  in after the greeting and \<open>n\<close> such turns, if it gets there.
\<close>

fun turns ::
  "nat \<Rightarrow> tables \<Rightarrow> 'g engine \<Rightarrow> 'g \<Rightarrow> player world \<Rightarrow> ('g \<times> player world) option" where
  "turns 0 U E g w = Some (g, w)"
| "turns (Suc n) U E g w =
     (if fst (game_iter U E g w) = Continue
      then turns n U E (fst (snd (game_iter U E g w))) (snd (snd (game_iter U E g w)))
      else None)"

definition session_state ::
  "tables \<Rightarrow> 'g engine \<Rightarrow> player world \<Rightarrow> nat \<Rightarrow> ('g \<times> player world) option" where
  "session_state U E w n =
     (case greet E (new_game E) w of
        (Inl e, w1) \<Rightarrow> None
      | (Inr u, w1) \<Rightarrow> turns n U E (new_game E) w1)"

section \<open>Matchmaking\<close>

text \<open>
  The state shared by the worker threads: the sockets accepted so far, the list
  \<open>clients_waiting\<close>, and the sessions started, each the pair of arguments of its
  \<open>handle_game\<close> thread. The block under \<open>lock\<close> is one step of this state.
\<close>

type_synonym conn = nat

record server =
  socks :: "conn world"
  clients_waiting :: "conn list"
  sessions :: "(conn \<times> conn) list"

definition offer :: "conn \<Rightarrow> server \<Rightarrow> server" where
  "offer c st =
     (let q = clients_waiting st @ [c] in
      if length q \<ge> 2 then
        st\<lparr>clients_waiting := tl (tl q), sessions := sessions st @ [(hd q, hd (tl q))]\<rparr>
      else st\<lparr>clients_waiting := q\<rparr>)"

text \<open>
  \<open>client_thread\<close>: the result is the error with which the thread dies, if any, and the
  state it leaves. \<open>conn.send\<close> is taken to write the whole greeting when it succeeds.
\<close>

definition client_thread :: "conn \<Rightarrow> server \<Rightarrow> string option \<times> server" where
  "client_thread c st =
     (case sendall c (''Welcome! Waiting for opponent...'' @ [CHR 0x0A]) (socks st) of
        (Some err, w1) \<Rightarrow> (case close c w1 of (r, w2) \<Rightarrow> (r, st\<lparr>socks := w2\<rparr>))
      | (None, w1) \<Rightarrow> (None, offer c (st\<lparr>socks := w1\<rparr>)))"

definition offer_all :: "conn list \<Rightarrow> server \<Rightarrow> server" where
  "offer_all cs st = foldl (\<lambda>st c. offer c st) st cs"

definition paired :: "(conn \<times> conn) list \<Rightarrow> conn list" where
  "paired ss = concat (map (\<lambda>pq. [fst pq, snd pq]) ss)"

section \<open>An engine and sockets to run the session on\<close>

text \<open>
  Modelled from the spec: the Game Engine (\<open>logic/logic.py\<close> is not among the sources).
  A noughts-and-crosses engine with the interface of section 6 of the specification: the
  turn owner, the symbol of each connection, a board rendering, a move operation that
  changes the state or signals game-over, not-your-turn, malformed-move, illegal-range or
  cell-occupied, and the winner, a symbol or \<open>Draw\<close>. The theorems below hold for every
  engine; this one serves to run the session on concrete inputs.
\<close>

record ttt =
  cells :: string
  to_move :: player
  result :: "string option"

definition ttt_symbol :: "player \<Rightarrow> string" where
  "ttt_symbol p = (if p = P1 then ''X'' else ''O'')"

definition ttt_wins :: "string \<Rightarrow> string \<Rightarrow> bool" where
  "ttt_wins b mark \<longleftrightarrow>
     list_ex (list_all (\<lambda>i. [b ! i] = mark))
       [[0, 1, 2], [3, 4, 5], [6, 7, 8], [0, 3, 6], [1, 4, 7], [2, 5, 8], [0, 4, 8], [2, 4, 6]]"

definition ttt_render :: "string \<Rightarrow> string" where
  "ttt_render b = take 3 b @ ''/'' @ take 3 (drop 3 b) @ ''/'' @ drop 6 b"

definition ttt_number :: "string \<Rightarrow> nat" where
  "ttt_number tok = foldl (\<lambda>n c. 10 * n + (of_char c - 48)) 0 tok"

definition ttt_move :: "ttt \<Rightarrow> player \<Rightarrow> string \<Rightarrow> engine_error option \<times> ttt" where
  "ttt_move g p tok =
     (if result g \<noteq> None then (Some (GameOverError ''Game is already over''), g)
      else if p \<noteq> to_move g then (Some (NotYourTurnError ''It is not your turn''), g)
      else if \<not> isdigit ascii_tables tok then (Some (InvalidMoveError ''Move must be a number''), g)
      else if ttt_number tok > 8 then (Some (OutOfRangeError ''Move must be between 0 and 8''), g)
      else if cells g ! ttt_number tok \<noteq> CHR ''.'' then
        (Some (CellOccupiedError ''Cell already taken''), g)
      else
        (let b = (cells g)[ttt_number tok := hd (ttt_symbol p)] in
         (None, g\<lparr>cells := b, to_move := other_of p,
                  result := (if ttt_wins b (ttt_symbol p) then Some (ttt_symbol p)
                             else if CHR ''.'' \<in> set b then None else Some ''Draw'')\<rparr>)))"

definition tictactoe :: "ttt engine" where
  "tictactoe =
     \<lparr>new_game = \<lparr>cells = ''.........'', to_move = P1, result = None\<rparr>,
      symbols = (\<lambda>g. ttt_symbol),
      turn = to_move,
      print_board = (\<lambda>g. ttt_render (cells g)),
      make_move = ttt_move,
      winner = result\<rparr>"

text \<open>
  A connected socket on which every send succeeds; a socket whose peer has reset the
  connection: \<open>getpeername\<close> fails, the first \<open>n\<close> sends still succeed and every
  later one fails, and \<open>recv\<close> still returns what had arrived before the reset; and a
  socket on which every send after the first \<open>n\<close> fails while \<open>getpeername\<close> still
  answers.
\<close>

definition live_socket :: "addr \<Rightarrow> recv_event stream \<Rightarrow> socket" where
  "live_socket a incoming =
     \<lparr>peer = Inr a, send_results = sconst None, recv_results = incoming,
      settimeout_error = None, close_error = None, outbox = [], deadline = None,
      is_closed = False\<rparr>"

definition reset_socket :: "nat \<Rightarrow> recv_event stream \<Rightarrow> socket" where
  "reset_socket n incoming =
     \<lparr>peer = Inl ''[Errno 107] Transport endpoint is not connected'',
      send_results = replicate n None @- sconst (Some ''[Errno 32] Broken pipe''),
      recv_results = incoming,
      settimeout_error = None, close_error = None, outbox = [], deadline = None,
      is_closed = False\<rparr>"

definition stalled_socket :: "addr \<Rightarrow> nat \<Rightarrow> recv_event stream \<Rightarrow> socket" where
  "stalled_socket a n incoming =
     \<lparr>peer = Inr a,
      send_results = replicate n None @- sconst (Some ''[Errno 105] No buffer space available''),
      recv_results = incoming,
      settimeout_error = None, close_error = None, outbox = [], deadline = None,
      is_closed = False\<rparr>"

definition session_of :: "socket \<Rightarrow> socket \<Rightarrow> player world" where
  "session_of s1 s2 p = (case p of P1 \<Rightarrow> s1 | P2 \<Rightarrow> s2)"

definition silent :: "recv_event stream" where
  "silent = sconst RecvTimeout"

definition says :: "string \<Rightarrow> recv_event stream" where
  "says text = Data (text @ [CHR 0x0A]) ## silent"

definition delivered :: "player \<Rightarrow> ('g \<times> player world) option \<Rightarrow> string list option" where
  "delivered p r = map_option (\<lambda>gw. outbox (snd gw p)) r"

definition both_closed :: "('g \<times> player world) option \<Rightarrow> bool option" where
  "both_closed r = map_option (\<lambda>gw. is_closed (snd gw P1) \<and> is_closed (snd gw P2)) r"

text \<open>The engine started from a given position, and a server that has accepted nobody yet.\<close>

definition resumed :: "string \<Rightarrow> player \<Rightarrow> ttt engine" where
  "resumed b p = tictactoe\<lparr>new_game := \<lparr>cells = b, to_move = p, result = None\<rparr>\<rparr>"

definition empty_server :: server where
  "empty_server =
     \<lparr>socks = (\<lambda>c. live_socket (''127.0.0.1'', 50000 + c) silent),
      clients_waiting = [], sessions = []\<rparr>"

section \<open>Unfolding the definitions\<close>

lemmas text_defs = strip_def split_def upper_def isdigit_def startswith_def decode_def chars_def
  then_chars_def is_cont_def second_ok_def ascii_tables_def ascii_upper_def
lemmas sock_defs = sendall_def recv_def settimeout_def close_def peer_or_unknown_def safe_send_def
  timed_out_def recv_attempt_def recv_with_timeout_def MOVE_TIMEOUT_SECONDS_def
lemmas game_defs = broadcast_def other_of_def prompt_and_receive_def parse_reply_def
  illegal_move_def game_over_notice_def tell_result_def announce_def apply_move_def iter_body_def
  notify_remaining_def game_iter_def close_both_def greet_def handle_game_def
lemmas demo_defs = ttt_symbol_def ttt_wins_def ttt_render_def ttt_number_def ttt_move_def
  tictactoe_def live_socket_def reset_socket_def stalled_socket_def session_of_def silent_def
  says_def delivered_def both_closed_def
lemmas eval_defs = text_defs sock_defs game_defs demo_defs Let_def resumed_def repr_addr_def

section \<open>The loop of a session\<close>

text \<open>
  A turn that breaks ends the loop with the state it leaves, a turn that continues hands
  its state to the next one, and a session that has reached a state ends as the loop
  started in that state does, with both sockets closed afterwards.
\<close>

lemma game_loop_break:
  "fst (game_iter U E g w) = Break \<Longrightarrow> game_loop U E g w = Some (snd (game_iter U E g w))"
  by (subst game_loop.simps) simp

lemma game_loop_continue:
  "fst (game_iter U E g w) = Continue \<Longrightarrow>
   game_loop U E g w =
     game_loop U E (fst (snd (game_iter U E g w))) (snd (snd (game_iter U E g w)))"
  by (subst game_loop.simps) simp

lemma turns_game_loop:
  "turns n U E g w = Some (g', w') \<Longrightarrow> game_loop U E g w = game_loop U E g' w'"
proof (induction n arbitrary: g w)
  case 0
  then show ?case by simp
next
  case (Suc n)
  from Suc.prems have c: "fst (game_iter U E g w) = Continue"
    by (simp split: if_splits)
  with Suc.prems have
    "turns n U E (fst (snd (game_iter U E g w))) (snd (snd (game_iter U E g w))) = Some (g', w')"
    by simp
  from Suc.IH [OF this] game_loop_continue [OF c] show ?case by simp
qed

lemma session_state_handle_game:
  assumes "session_state U E w0 n = Some (g, w)" and "game_loop U E g w = Some (g2, w2)"
  shows "handle_game U E w0 = Some (g2, close_both w2)"
proof -
  obtain r w1 where gr: "greet E (new_game E) w0 = (r, w1)"
    by (cases "greet E (new_game E) w0")
  with assms(1) obtain u where r: "r = Inr u" and t: "turns n U E (new_game E) w1 = Some (g, w)"
    by (cases r) (simp_all add: session_state_def)
  from turns_game_loop [OF t] assms(2) have "game_loop U E (new_game E) w1 = Some (g2, w2)"
    by simp
  with gr r show ?thesis
    by (simp add: handle_game_def)
qed

lemma iter_break_ends_session:
  assumes "session_state U E w0 n = Some (g, w)" and "game_iter U E g w = (Break, g2, w2)"
  shows "handle_game U E w0 = Some (g2, close_both w2)"
proof -
  from assms(2) have "game_loop U E g w = Some (g2, w2)"
    using game_loop_break [of U E g w] by simp
  with assms(1) show ?thesis by (rule session_state_handle_game)
qed

lemma broadcast_error:
  "broadcast t w = (Inl e, w') \<Longrightarrow> \<exists>a m. e = PlayerDisconnectedError a m"
  by (auto simp: broadcast_def safe_send_def split: prod.splits option.splits sum.splits)






section \<open>Transport primitives\<close>

text \<open>
  The outcomes of \<open>recv_with_timeout\<close>, for every socket: zero bytes raise
  \<open>PlayerDisconnectedError\<close>; the deadline of the socket and every \<open>TimeoutError\<close> of
  \<open>settimeout\<close> or \<open>recv\<close> raise \<open>TimeoutWaitingPlayerError\<close>, whose message carries the
  number of seconds of the bound; every other error of \<open>settimeout\<close> or \<open>recv\<close> and bytes
  that are not UTF-8 raise \<open>PlayerDisconnectedError\<close>; bytes that are UTF-8 give their text without
  the whitespace at its ends. The endpoint identity of the error is that of the socket, or
  \<open>(unknown, 0)\<close> when it cannot be resolved.
\<close>

lemma recv_with_timeout_outcomes:
  "(settimeout_error (w c) = None \<and> shd (recv_results (w c)) = Data [] \<longrightarrow>
      fst (recv_with_timeout U c t w) =
        Inl (PlayerDisconnectedError (peer_or_unknown (w c)) ''client closed connection''))
   \<and> (settimeout_error (w c) = None \<and> shd (recv_results (w c)) = RecvTimeout \<longrightarrow>
      fst (recv_with_timeout U c t w) =
        Inl (TimeoutWaitingPlayerError (peer_or_unknown (w c))
               (''Timed out after '' @ str_nat t @ '' seconds'')))
   \<and> (settimeout_error (w c) = None \<and> shd (recv_results (w c)) = RecvError (TimeoutError err) \<longrightarrow>
      fst (recv_with_timeout U c t w) =
        Inl (TimeoutWaitingPlayerError (peer_or_unknown (w c))
               (''Timed out after '' @ str_nat t @ '' seconds'')))
   \<and> (settimeout_error (w c) = None \<and> shd (recv_results (w c)) = RecvError (OSError err) \<longrightarrow>
      fst (recv_with_timeout U c t w) =
        Inl (PlayerDisconnectedError (peer_or_unknown (w c)) (''recv failed: '' @ err)))
   \<and> (settimeout_error (w c) = Some (TimeoutError err) \<longrightarrow>
      fst (recv_with_timeout U c t w) =
        Inl (TimeoutWaitingPlayerError (peer_or_unknown (w c))
               (''Timed out after '' @ str_nat t @ '' seconds'')))
   \<and> (settimeout_error (w c) = Some (OSError err) \<longrightarrow>
      fst (recv_with_timeout U c t w) =
        Inl (PlayerDisconnectedError (peer_or_unknown (w c)) (''recv failed: '' @ err)))
   \<and> (settimeout_error (w c) = None \<and> shd (recv_results (w c)) = Data bs \<and> bs \<noteq> []
        \<and> decode bs = Inr body \<longrightarrow>
      fst (recv_with_timeout U c t w) = Inr (strip U body))
   \<and> (settimeout_error (w c) = None \<and> shd (recv_results (w c)) = Data bs \<and> bs \<noteq> []
        \<and> decode bs = Inl err \<longrightarrow>
      fst (recv_with_timeout U c t w) =
        Inl (PlayerDisconnectedError (peer_or_unknown (w c)) (''recv failed: '' @ err)))"
  by (simp add: recv_with_timeout_def recv_attempt_def settimeout_def recv_def
      peer_or_unknown_def timed_out_def Let_def split: prod.splits)

text \<open>
  A reply in UTF-8 beyond ASCII is received as its text, and bytes that are not UTF-8 raise
  \<open>PlayerDisconnectedError\<close> with the message of the \<open>UnicodeDecodeError\<close>.
\<close>

lemma recv_with_timeout_utf8:
  "fst (recv_with_timeout ascii_tables P1 30
         (session_of (live_socket (''127.0.0.1'', 50001)
                        (Data [CHR 0xC3, CHR 0xA9, CHR 0x0A] ## silent))
                     (live_socket (''127.0.0.1'', 50002) silent))) = Inr [CHR 0xC3, CHR 0xA9]
   \<and> fst (recv_with_timeout ascii_tables P1 30
         (session_of (live_socket (''127.0.0.1'', 50001) (Data [CHR 0xFF, CHR 0x0A] ## silent))
                     (live_socket (''127.0.0.1'', 50002) silent))) =
     Inl (PlayerDisconnectedError (''127.0.0.1'', 50001)
            (''recv failed: '' @ [CHR 0x27] @ ''utf-8'' @ [CHR 0x27] @ '' codec can'' @ [CHR 0x27]
               @ ''t decode byte 0xff in position 0: invalid start byte''))"
  by (simp add: eval_defs str_decode_error_def hex2_def)

text \<open>
  Claim C4. \<open>recv_with_timeout\<close> is to raise \<open>PlayerDisconnectedError\<close> when zero bytes are
  read, \<open>TimeoutWaitingPlayerError\<close> when the deadline passes, and \<open>PlayerDisconnectedError\<close>
  on any other failure of the read, as its docstring says too. It does not on a \<open>recv\<close>
  that fails with \<open>ETIMEDOUT\<close>, the connection itself having timed out before the deadline
  of 30 seconds: the clause \<open>except socket.timeout\<close> takes this error and
  \<open>TimeoutWaitingPlayerError\<close> is raised, with the message of a deadline that has not
  passed, and the session tells the other player \<open>OPPONENT_TIMEOUT\<close>. A \<open>recv\<close> that fails
  with \<open>ECONNRESET\<close> on the same socket raises \<open>PlayerDisconnectedError\<close>.
\<close>

theorem connection_timeout_reported_as_deadline:
  "fst (recv_with_timeout ascii_tables P1 30
         (session_of (live_socket (''127.0.0.1'', 50001)
                        (RecvError (TimeoutError ''[Errno 110] Connection timed out'') ## silent))
                     (live_socket (''127.0.0.1'', 50002) silent))) =
     Inl (TimeoutWaitingPlayerError (''127.0.0.1'', 50001) ''Timed out after 30 seconds'')
   \<and> delivered P2 (handle_game ascii_tables tictactoe
         (session_of (live_socket (''127.0.0.1'', 50001)
                        (RecvError (TimeoutError ''[Errno 110] Connection timed out'') ## silent))
                     (live_socket (''127.0.0.1'', 50002) silent))) =
     Some [''Game start! You are O'' @ [CHR 0x0A], ''.../.../...'' @ [CHR 0x0A],
           ''Waiting for opponent...'' @ [CHR 0x0A], ''OPPONENT_TIMEOUT - you win'' @ [CHR 0x0A]]
   \<and> fst (recv_with_timeout ascii_tables P1 30
         (session_of (live_socket (''127.0.0.1'', 50001)
                        (RecvError (OSError ''[Errno 104] Connection reset by peer'') ## silent))
                     (live_socket (''127.0.0.1'', 50002) silent))) =
     Inl (PlayerDisconnectedError (''127.0.0.1'', 50001)
            ''recv failed: [Errno 104] Connection reset by peer'')"
  by (simp add: eval_defs game_loop_break)

text \<open>
  Claim C5. Whatever \<open>recv_with_timeout\<close> returns or raises (a text, a timeout, a closed
  or failed connection, a failure of \<open>settimeout\<close> itself), the read deadline of the socket
  is cleared when it returns: the \<open>finally\<close> clause runs on every path.
\<close>

theorem recv_with_timeout_clears_deadline:
  "deadline (snd (recv_with_timeout U c t w) c) = None"
  by (simp add: recv_with_timeout_def settimeout_def split: prod.splits)

section \<open>Terminal failures\<close>

text \<open>
  In any state a session has reached, when the turn raises \<open>TimeoutWaitingPlayerError\<close>,
  \<open>PlayerQuitError\<close> or \<open>PlayerDisconnectedError\<close> and the endpoint identity of \<open>p1\<close> can be
  resolved, the session sends \<open>OPPONENT_TIMEOUT - you win\<close>, \<open>OPPONENT_QUIT - you win\<close> or
  \<open>OPPONENT_DISCONNECTED - you win\<close> respectively to \<open>p2\<close> if the identity carried by the
  failure is that of \<open>p1\<close> and to \<open>p1\<close> otherwise, ignores a failure of that send, leaves the
  loop and returns with both connections closed.
\<close>

lemma terminal_failure_notice:
  assumes st: "session_state U E w0 n = Some (g, w)"
    and raised: "fst (iter_body U E g w) = Inl e"
    and kind: "e = TimeoutWaitingPlayerError a m \<and> notice = ''OPPONENT_TIMEOUT - you win''
             \<or> e = PlayerQuitError a m \<and> notice = ''OPPONENT_QUIT - you win''
             \<or> e = PlayerDisconnectedError a m \<and> notice = ''OPPONENT_DISCONNECTED - you win''"
    and p1: "peer (snd (snd (iter_body U E g w)) P1) = Inr a1"
  shows "handle_game U E w0 =
           Some (fst (snd (iter_body U E g w)),
                 close_both (snd (safe_send (if a = a1 then P2 else P1) (notice @ [CHR 0x0A])
                                    (snd (snd (iter_body U E g w))))))"
proof -
  obtain g1 w1 where body: "iter_body U E g w = (Inl e, g1, w1)"
    using raised by (cases "iter_body U E g w") auto
  from p1 body have n: "notify_remaining a (notice @ [CHR 0x0A]) w1 =
      snd (safe_send (if a = a1 then P2 else P1) (notice @ [CHR 0x0A]) w1)"
    by (simp add: notify_remaining_def)
  from kind have "on_exception e (turn E g) w1 = (Break, notify_remaining a (notice @ [CHR 0x0A]) w1)"
    by auto
  with body n have "game_iter U E g w =
      (Break, g1, snd (safe_send (if a = a1 then P2 else P1) (notice @ [CHR 0x0A]) w1))"
    by (simp add: game_iter_def)
  from iter_break_ends_session [OF st this] body show ?thesis by simp
qed

text \<open>
  Claim C1. Every terminal failure of a session (\<open>TimeoutWaitingPlayerError\<close>,
  \<open>PlayerQuitError\<close>, \<open>PlayerDisconnectedError\<close>) is to end the session after the surviving
  player has been sent its notice. The handlers of lines 179 to 205 do not send it when
  the identity of \<open>p1\<close> cannot be resolved: when the connection of \<open>p1\<close> is reset after the
  greeting, the board cannot be sent to it, the failure carries the identity
  \<open>(unknown, 0)\<close>, \<open>p1.getpeername()\<close> raises inside the \<open>try\<close> of the handler, and the
  session ends with both connections closed and no notice to \<open>p2\<close>, who has received the
  greeting only. When it is the connection of \<open>p2\<close> that is reset in the same way, \<open>p1\<close>
  is sent \<open>OPPONENT_DISCONNECTED - you win\<close>.
\<close>

theorem disconnect_of_p1_not_announced:
  "fst (iter_body ascii_tables tictactoe (new_game tictactoe)
         (snd (greet tictactoe (new_game tictactoe)
            (session_of (reset_socket 1 silent) (live_socket (''127.0.0.1'', 50002) silent))))) =
     Inl (PlayerDisconnectedError (''unknown'', 0) ''send failed: [Errno 32] Broken pipe'')
   \<and> delivered P2 (handle_game ascii_tables tictactoe
         (session_of (reset_socket 1 silent) (live_socket (''127.0.0.1'', 50002) silent))) =
     Some [''Game start! You are O'' @ [CHR 0x0A]]
   \<and> both_closed (handle_game ascii_tables tictactoe
         (session_of (reset_socket 1 silent) (live_socket (''127.0.0.1'', 50002) silent))) =
     Some True
   \<and> delivered P1 (handle_game ascii_tables tictactoe
         (session_of (live_socket (''127.0.0.1'', 50001) silent) (reset_socket 1 silent))) =
     Some [''Game start! You are X'' @ [CHR 0x0A], ''.../.../...'' @ [CHR 0x0A],
           ''OPPONENT_DISCONNECTED - you win'' @ [CHR 0x0A]]"
  by (simp add: eval_defs game_loop_break)

text \<open>
  In any state a session has reached, when the reply of the player to move is \<open>QUIT\<close> in
  any letter case and the endpoint identities of both connections can be resolved and
  differ, the turn raises \<open>PlayerQuitError\<close> with the identity of the player to move, and
  the session sends \<open>OPPONENT_QUIT - you win\<close> to the other player, ignores a failure of
  that send, and returns with both connections closed and the game unchanged.
\<close>

lemma quit_ends_session:
  assumes st: "session_state U E w0 n = Some (g, w)"
    and recvd: "fst (prompt_and_receive U E g w) = Inr m"
    and quit: "upper U m = ''QUIT''"
    and id1: "peer (snd (prompt_and_receive U E g w) P1) = Inr a1"
    and id2: "peer (snd (prompt_and_receive U E g w) P2) = Inr a2"
    and diff: "a1 \<noteq> a2"
  shows "fst (iter_body U E g w) =
           Inl (PlayerQuitError (peer_or_unknown (snd (prompt_and_receive U E g w) (turn E g)))
                  ''Player quit'')
       \<and> handle_game U E w0 =
           Some (g, close_both (snd (safe_send (other_of (turn E g))
                                       (''OPPONENT_QUIT - you win'' @ [CHR 0x0A])
                                       (snd (prompt_and_receive U E g w)))))"
proof -
  obtain w1 where pr: "prompt_and_receive U E g w = (Inr m, w1)"
    using recvd by (cases "prompt_and_receive U E g w") auto
  from id1 id2 pr have ids: "peer (w1 P1) = Inr a1" "peer (w1 P2) = Inr a2" by simp_all
  define a where "a = (if turn E g = P1 then a1 else a2)"
  have cur: "peer (w1 (turn E g)) = Inr a"
    using ids by (cases "turn E g") (simp_all add: a_def)
  have parse: "parse_reply U (w1 (turn E g)) m = Inl (PlayerQuitError a ''Player quit'')"
    using quit cur by (simp add: parse_reply_def)
  have body: "iter_body U E g w = (Inl (PlayerQuitError a ''Player quit''), g, w1)"
    by (simp add: iter_body_def pr parse)
  have rem: "notify_remaining a (''OPPONENT_QUIT - you win'' @ [CHR 0x0A]) w1 =
      snd (safe_send (other_of (turn E g)) (''OPPONENT_QUIT - you win'' @ [CHR 0x0A]) w1)"
    using ids diff by (cases "turn E g") (auto simp: notify_remaining_def a_def other_of_def)
  have "game_iter U E g w =
      (Break, g, snd (safe_send (other_of (turn E g)) (''OPPONENT_QUIT - you win'' @ [CHR 0x0A]) w1))"
    using rem by (simp add: game_iter_def body)
  from iter_break_ends_session [OF st this] body cur pr show ?thesis
    by (simp add: peer_or_unknown_def)
qed

text \<open>
  Claim C2. A reply \<open>QUIT\<close>, in any letter case and any state of the game, is to raise
  \<open>PlayerQuitError\<close> for the player to move and to end the session with the other player
  sent \<open>OPPONENT_QUIT - you win\<close> and both connections closed. Line 122 calls
  \<open>current.getpeername()\<close> without the guard that \<open>safe_send\<close> and \<open>recv_with_timeout\<close>
  put around it: when the connection that sent \<open>QUIT\<close> has been reset by the time the reply
  is read, the call raises, no \<open>PlayerQuitError\<close> is raised, and the other player is sent
  a server error in place of \<open>OPPONENT_QUIT - you win\<close>. When the connection is still up,
  the other player is sent the notice.
\<close>

theorem quit_from_reset_connection:
  "fst (iter_body ascii_tables tictactoe (new_game tictactoe)
         (snd (greet tictactoe (new_game tictactoe)
            (session_of (reset_socket 3 (says ''QUIT''))
                        (live_socket (''127.0.0.1'', 50002) silent))))) =
     Inl (OtherException ''[Errno 107] Transport endpoint is not connected'')
   \<and> delivered P2 (handle_game ascii_tables tictactoe
         (session_of (reset_socket 3 (says ''QUIT'')) (live_socket (''127.0.0.1'', 50002) silent))) =
     Some [''Game start! You are O'' @ [CHR 0x0A], ''.../.../...'' @ [CHR 0x0A],
           ''Waiting for opponent...'' @ [CHR 0x0A],
           ''Server error: [Errno 107] Transport endpoint is not connected'' @ [CHR 0x0A]]
   \<and> delivered P2 (handle_game ascii_tables tictactoe
         (session_of (live_socket (''127.0.0.1'', 50001) (says ''QUIT''))
                     (live_socket (''127.0.0.1'', 50002) silent))) =
     Some [''Game start! You are O'' @ [CHR 0x0A], ''.../.../...'' @ [CHR 0x0A],
           ''Waiting for opponent...'' @ [CHR 0x0A], ''OPPONENT_QUIT - you win'' @ [CHR 0x0A]]"
  by (simp add: eval_defs game_loop_break)

section \<open>Replies\<close>

text \<open>
  For every reply \<open>m\<close> received in a turn: if \<open>m\<close> in upper case starts with \<open>MOVE\<close> and a
  blank and is not two tokens of which the second is all digits, and the endpoint identity
  of the player to move can be resolved, the turn raises \<open>InvalidMessageError\<close>, the player
  is sent an \<open>INVALID_MESSAGE\<close> notice, and the loop continues with the game unchanged; if
  \<open>m\<close> is a \<open>MOVE\<close> message of two tokens of which the second is all digits, that token is
  the move argument; and if \<open>m\<close> is neither \<open>QUIT\<close> nor a \<open>MOVE\<close> message nor all digits,
  the player is sent \<open>Invalid move format\<close> and, that send succeeding, the loop continues
  with the game unchanged.
\<close>

lemma reply_classification:
  assumes recvd: "fst (prompt_and_receive U E g w) = Inr m"
  shows "(startswith (upper U m) ''MOVE ''
            \<and> (length (split U m) \<noteq> 2 \<or> \<not> isdigit U (split U m ! 1))
            \<and> peer (snd (prompt_and_receive U E g w) (turn E g)) = Inr a \<longrightarrow>
          fst (iter_body U E g w) = Inl (InvalidMessageError a (''Malformed MOVE: '' @ m))
          \<and> game_iter U E g w =
              (Continue, g,
               snd (safe_send (turn E g)
                      (''INVALID_MESSAGE: Malformed MOVE: '' @ m @ '': '' @ repr_addr a @ [CHR 0x0A])
                      (snd (prompt_and_receive U E g w)))))
       \<and> (startswith (upper U m) ''MOVE ''
            \<and> length (split U m) = 2 \<and> isdigit U (split U m ! 1) \<longrightarrow>
          iter_body U E g w =
            apply_move E g (turn E g) (split U m ! 1) (snd (prompt_and_receive U E g w)))
       \<and> (upper U m \<noteq> ''QUIT'' \<and> \<not> startswith (upper U m) ''MOVE '' \<and> \<not> isdigit U m
            \<and> shd (send_results (snd (prompt_and_receive U E g w) (turn E g))) = None \<longrightarrow>
          game_iter U E g w =
            (Continue, g,
             snd (safe_send (turn E g) (''Invalid move format: '' @ m @ [CHR 0x0A])
                    (snd (prompt_and_receive U E g w)))))"
proof -
  obtain w1 where pr: "prompt_and_receive U E g w = (Inr m, w1)"
    using recvd by (cases "prompt_and_receive U E g w") auto
  have malformed: "fst (iter_body U E g w) = Inl (InvalidMessageError a (''Malformed MOVE: '' @ m))
      \<and> game_iter U E g w =
          (Continue, g,
           snd (safe_send (turn E g)
                  (''INVALID_MESSAGE: Malformed MOVE: '' @ m @ '': '' @ repr_addr a @ [CHR 0x0A]) w1))"
    if mv: "startswith (upper U m) ''MOVE ''"
      and bad: "length (split U m) \<noteq> 2 \<or> \<not> isdigit U (split U m ! 1)"
      and id: "peer (w1 (turn E g)) = Inr a"
  proof -
    from mv have nq: "upper U m \<noteq> ''QUIT''"
      by (auto simp: startswith_def)
    from nq mv bad id have
      "parse_reply U (w1 (turn E g)) m = Inl (InvalidMessageError a (''Malformed MOVE: '' @ m))"
      by (simp add: parse_reply_def Let_def)
    then have body: "iter_body U E g w = (Inl (InvalidMessageError a (''Malformed MOVE: '' @ m)), g, w1)"
      by (simp add: iter_body_def pr)
    then show ?thesis
      by (simp add: game_iter_def)
  qed
  have wellformed: "iter_body U E g w = apply_move E g (turn E g) (split U m ! 1) w1"
    if mv: "startswith (upper U m) ''MOVE ''"
      and two: "length (split U m) = 2" and dig: "isdigit U (split U m ! 1)"
  proof -
    from mv have nq: "upper U m \<noteq> ''QUIT''"
      by (auto simp: startswith_def)
    from nq mv two dig show ?thesis
      by (simp add: iter_body_def pr parse_reply_def Let_def)
  qed
  have other: "game_iter U E g w =
      (Continue, g, snd (safe_send (turn E g) (''Invalid move format: '' @ m @ [CHR 0x0A]) w1))"
    if "upper U m \<noteq> ''QUIT''" and "\<not> startswith (upper U m) ''MOVE ''" and "\<not> isdigit U m"
      and "shd (send_results (w1 (turn E g))) = None"
    using that
    by (simp add: game_iter_def iter_body_def pr parse_reply_def safe_send_def sendall_def Let_def)
  from malformed wellformed other pr show ?thesis
    by simp
qed

text \<open>
  Claim C3. A \<open>MOVE\<close> message that is not two tokens of which the second is all digits is
  to raise \<open>InvalidMessageError\<close>, reported to the player while the session continues with
  the turn unchanged; a reply of digits is the move argument; any other reply is answered
  with \<open>Invalid move format\<close>. Line 127 calls \<open>current.getpeername()\<close> without a guard, as
  line 122 does: when the connection that sent \<open>MOVE x\<close> has been reset by the time the
  reply is read, the call raises, no \<open>InvalidMessageError\<close> is raised, and the session ends
  with a server error sent to the other player. When the connection is still up, the
  player is sent the \<open>INVALID_MESSAGE\<close> notice and the loop continues with the game
  unchanged.
\<close>

theorem malformed_move_from_reset_connection:
  "fst (iter_body ascii_tables tictactoe (new_game tictactoe)
         (snd (greet tictactoe (new_game tictactoe)
            (session_of (reset_socket 3 (says ''MOVE x''))
                        (live_socket (''127.0.0.1'', 50002) silent))))) =
     Inl (OtherException ''[Errno 107] Transport endpoint is not connected'')
   \<and> delivered P2 (handle_game ascii_tables tictactoe
         (session_of (reset_socket 3 (says ''MOVE x'')) (live_socket (''127.0.0.1'', 50002) silent))) =
     Some [''Game start! You are O'' @ [CHR 0x0A], ''.../.../...'' @ [CHR 0x0A],
           ''Waiting for opponent...'' @ [CHR 0x0A],
           ''Server error: [Errno 107] Transport endpoint is not connected'' @ [CHR 0x0A]]
   \<and> both_closed (handle_game ascii_tables tictactoe
         (session_of (reset_socket 3 (says ''MOVE x'')) (live_socket (''127.0.0.1'', 50002) silent))) =
     Some True
   \<and> fst (game_iter ascii_tables tictactoe (new_game tictactoe)
         (session_of (live_socket (''127.0.0.1'', 50001) (says ''MOVE x''))
                     (live_socket (''127.0.0.1'', 50002) silent))) = Continue
   \<and> fst (snd (game_iter ascii_tables tictactoe (new_game tictactoe)
         (session_of (live_socket (''127.0.0.1'', 50001) (says ''MOVE x''))
                     (live_socket (''127.0.0.1'', 50002) silent)))) = new_game tictactoe
   \<and> outbox (snd (snd (game_iter ascii_tables tictactoe (new_game tictactoe)
         (session_of (live_socket (''127.0.0.1'', 50001) (says ''MOVE x''))
                     (live_socket (''127.0.0.1'', 50002) silent)))) P1) =
       [''.../.../...'' @ [CHR 0x0A], ''Your move (0-8) or QUIT:'' @ [CHR 0x0A],
        ''INVALID_MESSAGE: Malformed MOVE: MOVE x: ('' @ [CHR 0x27] @ ''127.0.0.1'' @ [CHR 0x27]
          @ '', 50001)'' @ [CHR 0x0A]]"
  by (simp add: eval_defs game_loop_break)



section \<open>The result of a game\<close>

text \<open>
  In any state a session has reached, when the reply is a move that the engine applies
  without raising, the new board has been sent to both players and the engine reports a
  winner: on \<open>Draw\<close>, both sends of the draw notice succeeding, each player is sent the
  draw notice; otherwise each player is sent \<open>You win!\<close> if its symbol is the winner and
  \<open>You lose!\<close> if not, a failure of either send being ignored; and in either case the loop
  ends and the session returns with both connections closed.
\<close>

lemma winner_reported:
  assumes st: "session_state U E w0 n = Some (g, w)"
    and recvd: "fst (prompt_and_receive U E g w) = Inr m"
    and parsed: "parse_reply U (snd (prompt_and_receive U E g w) (turn E g)) m = Inr (MoveArg arg)"
    and legal: "make_move E g (turn E g) arg = (None, g1)"
    and board: "broadcast (print_board E g1 @ [CHR 0x0A]) (snd (prompt_and_receive U E g w)) = (Inr (), w2)"
    and won: "winner E g1 = Some win" "win \<noteq> []"
  shows "(win = ''Draw'' \<and> shd (send_results (w2 P1)) = None \<and> shd (send_results (w2 P2)) = None \<longrightarrow>
          handle_game U E w0 =
            Some (g1, close_both
              (snd (safe_send P2 (''Game over! It'' @ [CHR 0x27] @ ''s a draw.'' @ [CHR 0x0A])
                 (snd (safe_send P1 (''Game over! It'' @ [CHR 0x27] @ ''s a draw.'' @ [CHR 0x0A]) w2))))))
       \<and> (win \<noteq> ''Draw'' \<longrightarrow>
          handle_game U E w0 =
            Some (g1, close_both
              (snd (safe_send P2
                      (if symbols E g1 P2 = win then ''You win!'' @ [CHR 0x0A] else ''You lose!'' @ [CHR 0x0A])
                 (snd (safe_send P1
                      (if symbols E g1 P1 = win then ''You win!'' @ [CHR 0x0A] else ''You lose!'' @ [CHR 0x0A])
                      w2))))))
       \<and> fst (game_iter U E g w) = Break"
proof -
  obtain w1 where pr: "prompt_and_receive U E g w = (Inr m, w1)"
    using recvd by (cases "prompt_and_receive U E g w") auto
  from parsed pr have parsed': "parse_reply U (w1 (turn E g)) m = Inr (MoveArg arg)" by simp
  from board pr have board': "broadcast (print_board E g1 @ [CHR 0x0A]) w1 = (Inr (), w2)" by simp
  have body: "iter_body U E g w = announce E g1 w1"
    by (simp add: iter_body_def pr parsed' apply_move_def legal)
  define d where "d = ''Game over! It'' @ [CHR 0x27] @ ''s a draw.'' @ [CHR 0x0A]"
  have ann: "announce E g1 w1 =
      (case broadcast d w2 of
         (Inl e, w3) \<Rightarrow> (Inl e, g1, w3)
       | (Inr u, w3) \<Rightarrow> (Inr Break, g1, w3))"
    if "win = ''Draw''"
    using that won by (simp add: announce_def board' d_def)
  have sent: "broadcast d w2 = (Inr (), snd (safe_send P2 d (snd (safe_send P1 d w2))))"
    if "shd (send_results (w2 P1)) = None" "shd (send_results (w2 P2)) = None"
    using that by (simp add: broadcast_def safe_send_def sendall_def Let_def)
  have draw: "game_iter U E g w =
      (Break, g1, snd (safe_send P2 d (snd (safe_send P1 d w2))))"
    if "win = ''Draw''" "shd (send_results (w2 P1)) = None" "shd (send_results (w2 P2)) = None"
    using that by (simp add: game_iter_def body ann sent)
  have win: "game_iter U E g w =
      (Break, g1, snd (safe_send P2
                      (if symbols E g1 P2 = win then ''You win!'' @ [CHR 0x0A] else ''You lose!'' @ [CHR 0x0A])
                 (snd (safe_send P1
                      (if symbols E g1 P1 = win then ''You win!'' @ [CHR 0x0A] else ''You lose!'' @ [CHR 0x0A])
                      w2))))"
    if "win \<noteq> ''Draw''"
    using that won
    by (simp add: game_iter_def body announce_def board' tell_result_def)
  have brk: "fst (game_iter U E g w) = Break"
  proof (cases "win = ''Draw''")
    case False
    with win show ?thesis by simp
  next
    case True
    obtain r w3 where b: "broadcast d w2 = (r, w3)"
      by (cases "broadcast d w2")
    show ?thesis
    proof (cases r)
      case (Inr u)
      with True b show ?thesis
        by (simp add: game_iter_def body ann)
    next
      case (Inl e)
      with b broadcast_error [of d w2 e w3] obtain a m where "e = PlayerDisconnectedError a m"
        by auto
      with Inl True b show ?thesis
        by (simp add: game_iter_def body ann)
    qed
  qed
  have fin: "handle_game U E w0 = Some (g1, close_both w3)" if "game_iter U E g w = (Break, g1, w3)" for w3
    using iter_break_ends_session [OF st that] .
  from draw [THEN fin] win [THEN fin] brk show ?thesis
    by (simp add: d_def)
qed

text \<open>
  Claim C6. After a move that the engine applies, when the engine reports a winner, both
  players are to receive the draw notice on a draw, and \<open>You win!\<close> or \<open>You lose!\<close> on a
  win, and the session ends. The two sends of the draw notice on lines 165 and 166 are
  not guarded as those of lines 168 to 176 are: in a game that the last move makes a draw,
  when the draw notice cannot be sent to \<open>p1\<close>, the failure leaves the loop through the
  handler of \<open>PlayerDisconnectedError\<close> and \<open>p2\<close>, whose connection is up, is sent
  \<open>OPPONENT_DISCONNECTED - you win\<close> in place of the draw notice, or nothing at all when
  the connection of \<open>p1\<close> has been reset. In a game that the last move wins, the same
  failure is ignored and \<open>p2\<close> is sent \<open>You lose!\<close>.
\<close>

theorem draw_notice_lost_on_send_failure:
  "delivered P2 (handle_game ascii_tables (resumed ''XOXXOOOX.'' P1)
     (session_of (stalled_socket (''127.0.0.1'', 50001) 4 (says ''8''))
                 (live_socket (''127.0.0.1'', 50002) silent))) =
     Some [''Game start! You are O'' @ [CHR 0x0A], ''XOX/XOO/OX.'' @ [CHR 0x0A],
           ''Waiting for opponent...'' @ [CHR 0x0A], ''XOX/XOO/OXX'' @ [CHR 0x0A],
           ''OPPONENT_DISCONNECTED - you win'' @ [CHR 0x0A]]
   \<and> map_option (\<lambda>gw. winner (resumed ''XOXXOOOX.'' P1) (fst gw))
       (handle_game ascii_tables (resumed ''XOXXOOOX.'' P1)
         (session_of (stalled_socket (''127.0.0.1'', 50001) 4 (says ''8''))
                     (live_socket (''127.0.0.1'', 50002) silent))) = Some (Some ''Draw'')
   \<and> delivered P2 (handle_game ascii_tables (resumed ''XOXXOOOX.'' P1)
     (session_of (reset_socket 4 (says ''8''))
                 (live_socket (''127.0.0.1'', 50002) silent))) =
     Some [''Game start! You are O'' @ [CHR 0x0A], ''XOX/XOO/OX.'' @ [CHR 0x0A],
           ''Waiting for opponent...'' @ [CHR 0x0A], ''XOX/XOO/OXX'' @ [CHR 0x0A]]
   \<and> delivered P2 (handle_game ascii_tables (resumed ''XX.OO....'' P1)
     (session_of (stalled_socket (''127.0.0.1'', 50001) 4 (says ''2''))
                 (live_socket (''127.0.0.1'', 50002) silent))) =
     Some [''Game start! You are O'' @ [CHR 0x0A], ''XX./OO./...'' @ [CHR 0x0A],
           ''Waiting for opponent...'' @ [CHR 0x0A], ''XXX/OO./...'' @ [CHR 0x0A],
           ''You lose!'' @ [CHR 0x0A]]"
  by (simp add: eval_defs game_loop_break)

section \<open>Closing the connections\<close>



section \<open>The matchmaking queue\<close>

lemma paired_snoc: "paired (ss @ [(a, b)]) = paired ss @ [a, b]"
  by (simp add: paired_def)

lemma offer_empty:
  "clients_waiting st = [] \<Longrightarrow> offer c st = st\<lparr>clients_waiting := [c]\<rparr>"
  by (simp add: offer_def)

lemma offer_waiting:
  "clients_waiting st = a # q \<Longrightarrow>
   offer c st = st\<lparr>clients_waiting := tl (q @ [c]), sessions := sessions st @ [(a, hd (q @ [c]))]\<rparr>"
  by (simp add: offer_def)

lemma offer_all_snoc: "offer_all (cs @ [c]) st = offer c (offer_all cs st)"
  by (simp add: offer_all_def)

lemma offer_all_invariant:
  assumes "length (clients_waiting st) \<le> 1"
  shows "paired (sessions (offer_all cs st)) @ clients_waiting (offer_all cs st) =
           paired (sessions st) @ clients_waiting st @ cs
       \<and> length (clients_waiting (offer_all cs st)) \<le> 1
       \<and> 2 * length (sessions (offer_all cs st)) + length (clients_waiting (offer_all cs st)) =
           2 * length (sessions st) + length (clients_waiting st) + length cs"
proof (induction cs rule: rev_induct)
  case Nil
  with assms show ?case by (simp add: offer_all_def)
next
  case (snoc c cs)
  let ?s = "offer_all cs st"
  from snoc consider "clients_waiting ?s = []" | a where "clients_waiting ?s = [a]"
    by (cases "clients_waiting ?s") auto
  then show ?case
  proof cases
    case 1
    with snoc show ?thesis
      by (simp add: offer_all_snoc offer_empty)
  next
    case 2
    with snoc show ?thesis
      by (simp add: offer_all_snoc offer_waiting paired_snoc)
  qed
qed

text \<open>
  Claim C8. The block under the lock appends the connection and, when two or more are
  waiting, removes the two oldest and starts one session with them in that order.
  Offered one after the other to an empty queue, distinct connections are paired in
  arrival order, two by two: the sessions started followed by the queue are the
  connections offered, so that no connection is in two sessions or in a session and in
  the queue, and at most one connection waits. A connection whose greeting was sent is
  offered by \<open>client_thread\<close> in this way.
\<close>

theorem matchmaking_pairs_fifo:
  assumes "clients_waiting st = []" and "sessions st = []" and "distinct cs"
  shows "paired (sessions (offer_all cs st)) @ clients_waiting (offer_all cs st) = cs
       \<and> length (sessions (offer_all cs st)) = length cs div 2
       \<and> length (clients_waiting (offer_all cs st)) = length cs mod 2
       \<and> distinct (paired (sessions (offer_all cs st)) @ clients_waiting (offer_all cs st))
       \<and> (clients_waiting st' = [] \<longrightarrow> offer c st' = st'\<lparr>clients_waiting := [c]\<rparr>)
       \<and> (clients_waiting st' = a # q \<longrightarrow>
            offer c st' = st'\<lparr>clients_waiting := tl (q @ [c]),
                               sessions := sessions st' @ [(a, hd (q @ [c]))]\<rparr>)
       \<and> (shd (send_results (socks st' c)) = None \<longrightarrow>
            clients_waiting (snd (client_thread c st')) = clients_waiting (offer c st')
            \<and> sessions (snd (client_thread c st')) = sessions (offer c st'))"
proof -
  from assms(1) have "length (clients_waiting st) \<le> 1" by simp
  from offer_all_invariant [OF this, of cs] assms(1,2)
  have inv: "paired (sessions (offer_all cs st)) @ clients_waiting (offer_all cs st) = cs"
    and le: "length (clients_waiting (offer_all cs st)) \<le> 1"
    and cnt: "2 * length (sessions (offer_all cs st)) + length (clients_waiting (offer_all cs st)) =
              length cs"
    by (simp_all add: paired_def)
  from le cnt have "length (sessions (offer_all cs st)) = length cs div 2"
    and "length (clients_waiting (offer_all cs st)) = length cs mod 2"
    by presburger+
  moreover from inv assms(3)
  have "distinct (paired (sessions (offer_all cs st)) @ clients_waiting (offer_all cs st))"
    by simp
  moreover have "clients_waiting (snd (client_thread c st')) = clients_waiting (offer c st')
      \<and> sessions (snd (client_thread c st')) = sessions (offer c st')"
    if "shd (send_results (socks st' c)) = None"
    using that by (simp add: client_thread_def sendall_def Let_def offer_def)
  ultimately show ?thesis
    using inv offer_empty [of st' c] offer_waiting [of st' a q c] by simp
qed

text \<open>
  Five connections accepted one after the other.
\<close>

theorem matchmaking_pairs_fifo_witness:
  "sessions (offer_all [1, 2, 3, 4, 5] empty_server) = [(1, 2), (3, 4)]
   \<and> clients_waiting (offer_all [1, 2, 3, 4, 5] empty_server) = [5]
   \<and> paired (sessions (offer_all [1, 2, 3, 4, 5] empty_server))
        @ clients_waiting (offer_all [1, 2, 3, 4, 5] empty_server) = [1, 2, 3, 4, 5]
   \<and> length (sessions (offer_all [1, 2, 3, 4, 5] empty_server)) = 2
   \<and> clients_waiting (offer 1 empty_server) = [1]
   \<and> sessions (offer 2 (offer 1 empty_server)) = [(1, 2)]
   \<and> clients_waiting (offer 2 (offer 1 empty_server)) = []
   \<and> clients_waiting (snd (client_thread 1 empty_server)) = [1]"
  using
    matchmaking_pairs_fifo [where st = empty_server and cs = "[1, 2, 3, 4, 5]"
      and st' = empty_server and c = 1]
    matchmaking_pairs_fifo [where st = empty_server and cs = "[1, 2, 3, 4, 5]"
      and st' = "offer 1 empty_server" and c = 2 and a = 1 and q = "[]"]
  by (simp add: empty_server_def offer_all_def offer_def paired_def live_socket_def)

text \<open>
  Claim C10. When the greeting cannot be sent to a new connection, \<open>client_thread\<close>
  closes the connection and leaves the queue and the sessions as they were: the connection
  is never appended and so never paired.
\<close>

theorem failed_greeting_not_queued:
  assumes "shd (send_results (socks st c)) = Some err"
  shows "clients_waiting (snd (client_thread c st)) = clients_waiting st
       \<and> sessions (snd (client_thread c st)) = sessions st
       \<and> is_closed (socks (snd (client_thread c st)) c)
       \<and> outbox (socks (snd (client_thread c st)) c) = outbox (socks st c)"
  using assms
  by (simp add: client_thread_def sendall_def close_def Let_def split: prod.splits)

text \<open>
  A connection that is reset before the greeting, while another connection waits.
\<close>

theorem failed_greeting_not_queued_witness:
  "clients_waiting (snd (client_thread 7
      (empty_server\<lparr>socks := (socks empty_server)(7 := reset_socket 0 silent),
                      clients_waiting := [3]\<rparr>))) = [3]
   \<and> sessions (snd (client_thread 7
      (empty_server\<lparr>socks := (socks empty_server)(7 := reset_socket 0 silent),
                      clients_waiting := [3]\<rparr>))) = []
   \<and> is_closed (socks (snd (client_thread 7
      (empty_server\<lparr>socks := (socks empty_server)(7 := reset_socket 0 silent),
                      clients_waiting := [3]\<rparr>))) 7)"
  using failed_greeting_not_queued [where c = 7 and err = "''[Errno 32] Broken pipe''"
      and st = "empty_server\<lparr>socks := (socks empty_server)(7 := reset_socket 0 silent),
                      clients_waiting := [3]\<rparr>"]
  by (simp add: empty_server_def reset_socket_def)

end
